theory Spec2Isabelle
  imports Complex_Main
begin

section \<open>Rate limiter of the Telegram bot (\<^verbatim>\<open>telegram_bot.py\<close>)\<close>

text \<open>
  \<^verbatim>\<open>self.attempts = defaultdict(list)\<close> maps a chat id to the list of the instants at
  which an attempt was recorded. A \<^verbatim>\<open>defaultdict\<close> inserts the default value when a
  missing key is read with \<^verbatim>\<open>[]\<close>, so reading is an effect: \<open>entry\<close> gives the value read
  and the functions below write the key back explicitly.

  Instants are the results of \<^verbatim>\<open>time.time()\<close>. They are modelled as exact rationals.
\<close>

type_synonym attempts = "int \<rightharpoonup> rat list"

definition max_attempts :: nat where
  "max_attempts = 5"

definition block_duration :: rat where
  "block_duration = 600"

definition entry :: "attempts \<Rightarrow> int \<Rightarrow> rat list" where
  "entry att chat_id = (case att chat_id of None \<Rightarrow> [] | Some ts \<Rightarrow> ts)"

text \<open>
  The list comprehension of \<^verbatim>\<open>check_ddos_protection\<close>: the attempts that are kept are
  those with \<^verbatim>\<open>current_time - attempt < self.block_duration\<close>.
\<close>

definition recent :: "rat \<Rightarrow> rat list \<Rightarrow> rat list" where
  "recent current_time ts = filter (\<lambda>attempt. current_time - attempt < block_duration) ts"

text \<open>
  The dictionary returned by \<^verbatim>\<open>check_ddos_protection\<close>: either only
  \<^verbatim>\<open>{"blocked": False}\<close>, or \<^verbatim>\<open>blocked\<close>, \<^verbatim>\<open>time_until_unblock\<close>, \<^verbatim>\<open>minutes\<close> and
  \<^verbatim>\<open>seconds\<close>.
\<close>

datatype ddos_check = NotBlocked | Blocked rat int int

fun is_blocked :: "ddos_check \<Rightarrow> bool" where
  "is_blocked NotBlocked = False"
| "is_blocked (Blocked w m s) = True"

definition check_ddos_protection :: "attempts \<Rightarrow> int \<Rightarrow> rat \<Rightarrow> ddos_check \<times> attempts" where
  "check_ddos_protection att chat_id current_time =
     (let chat_attempts = recent current_time (entry att chat_id);
          att' = att(chat_id \<mapsto> chat_attempts)
      in if max_attempts \<le> length chat_attempts
         then (let oldest_attempt = min_list chat_attempts;
                   time_until_unblock = block_duration - (current_time - oldest_attempt);
                   minutes = \<lfloor>time_until_unblock / 60\<rfloor>;
                   seconds = \<lfloor>time_until_unblock - 60 * of_int \<lfloor>time_until_unblock / 60\<rfloor>\<rfloor>
               in (Blocked time_until_unblock minutes seconds, att'))
         else (NotBlocked, att'))"

definition record_attempt :: "attempts \<Rightarrow> int \<Rightarrow> rat \<Rightarrow> attempts" where
  "record_attempt att chat_id current_time = att(chat_id \<mapsto> entry att chat_id @ [current_time])"

section \<open>JSON values and the code extractor (\<^verbatim>\<open>place_and_play_agent.py\<close>)\<close>

text \<open>
  What \<^verbatim>\<open>response.json()\<close> returns: \<^verbatim>\<open>None\<close>, \<^verbatim>\<open>bool\<close>, \<^verbatim>\<open>int\<close>, \<^verbatim>\<open>float\<close>, \<^verbatim>\<open>str\<close>,
  \<^verbatim>\<open>list\<close> and \<^verbatim>\<open>dict\<close>. A \<^verbatim>\<open>dict\<close> is iterated in insertion order, so it is an
  association list. Floats are kept as rationals; no function below computes with them.
\<close>

datatype json =
    JNull
  | JBool bool
  | JInt int
  | JFloat rat
  | JString string
  | JArray "json list"
  | JObject "(string \<times> json) list"

text \<open>\<^verbatim>\<open>str(n)\<close> for a Python \<^verbatim>\<open>int\<close>: decimal digits, with a minus sign.\<close>

definition digit_char :: "nat \<Rightarrow> char" where
  "digit_char d = ''0123456789'' ! d"

fun str_nat :: "nat \<Rightarrow> string" where
  "str_nat n = (if n < 10 then [digit_char n] else str_nat (n div 10) @ [digit_char (n mod 10)])"

definition str_int :: "int \<Rightarrow> string" where
  "str_int i = (if i < 0 then CHR ''-'' # str_nat (nat (- i)) else str_nat (nat i))"

text \<open>
  \<^verbatim>\<open>str.lower()\<close> on the ASCII letters. (Characters here are bytes; Python lowers other
  cased code points too, none of which occurs in a target key.)
\<close>

definition lower_char :: "char \<Rightarrow> char" where
  "lower_char c =
     (case map_of (zip ''ABCDEFGHIJKLMNOPQRSTUVWXYZ'' ''abcdefghijklmnopqrstuvwxyz'') c of
        None \<Rightarrow> c
      | Some l \<Rightarrow> l)"

definition lower :: "string \<Rightarrow> string" where
  "lower s = map lower_char s"

definition TARGET_KEYS :: "string list" where
  "TARGET_KEYS = [''code'', ''verificationCode'', ''otp'', ''otpCode'']"

text \<open>
  \<^verbatim>\<open>isinstance(value, (str, int))\<close>: Python's \<^verbatim>\<open>bool\<close> is a subclass of \<^verbatim>\<open>int\<close>.
  \<open>py_str\<close> is \<^verbatim>\<open>str(value)\<close> on those values.
\<close>

fun is_str_or_int :: "json \<Rightarrow> bool" where
  "is_str_or_int (JString s) = True"
| "is_str_or_int (JInt i) = True"
| "is_str_or_int (JBool b) = True"
| "is_str_or_int v = False"

fun py_str :: "json \<Rightarrow> string" where
  "py_str (JString s) = s"
| "py_str (JInt i) = str_int i"
| "py_str (JBool b) = (if b then ''True'' else ''False'')"
| "py_str v = []"

text \<open>
  \<^verbatim>\<open>_find_code_in_payload\<close>. The loop over \<^verbatim>\<open>payload.items()\<close> is \<open>find_in_items\<close>, the loop
  over a list is \<open>find_in_list\<close>. \<^verbatim>\<open>if found:\<close> is false for \<^verbatim>\<open>None\<close> and for the empty
  string, and then the loop goes on. None of the operations raises on a parsed JSON value,
  so the enclosing \<^verbatim>\<open>try\<close> has nothing to catch; Python's bound on the recursion depth
  is not modelled.
\<close>

fun find_code_in_payload :: "json \<Rightarrow> string option"
  and find_in_items :: "(string \<times> json) list \<Rightarrow> string option"
  and find_in_list :: "json list \<Rightarrow> string option"
where
  "find_code_in_payload (JObject items) = find_in_items items"
| "find_code_in_payload (JArray xs) = find_in_list xs"
| "find_code_in_payload JNull = None"
| "find_code_in_payload (JBool b) = None"
| "find_code_in_payload (JInt i) = None"
| "find_code_in_payload (JFloat f) = None"
| "find_code_in_payload (JString s) = None"
| "find_in_items [] = None"
| "find_in_items ((key, value) # rest) =
     (if lower key \<in> set TARGET_KEYS \<and> is_str_or_int value then Some (py_str value)
      else (case find_code_in_payload value of
              None \<Rightarrow> find_in_items rest
            | Some found \<Rightarrow> if found \<noteq> [] then Some found else find_in_items rest))"
| "find_in_list [] = None"
| "find_in_list (item # rest) =
     (case find_code_in_payload item of
        None \<Rightarrow> find_in_list rest
      | Some found \<Rightarrow> if found \<noteq> [] then Some found else find_in_list rest)"

section \<open>Session codec (\<^verbatim>\<open>place_and_play_agent.py\<close>)\<close>

text \<open>
  The payload handed to \<^verbatim>\<open>jwt.encode\<close> and the payload \<^verbatim>\<open>jwt.decode\<close> returns are Python
  dictionaries. Their values are JSON values or, before encoding, \<^verbatim>\<open>datetime\<close> objects
  (an instant in seconds, as a rational).
\<close>

datatype claim = Json json | Datetime rat

type_synonym payload = "(string \<times> claim) list"

text \<open>
  \<^verbatim>\<open>jwt.encode\<close> and \<^verbatim>\<open>jwt.decode\<close> belong to the PyJWT package, which is not part of the
  repository: both are parameters of the functions below. What \<^verbatim>\<open>jwt.decode\<close> raises is
  classified by the \<^verbatim>\<open>except\<close> clause that catches it: \<^verbatim>\<open>jwt.ExpiredSignatureError\<close>, any
  other \<^verbatim>\<open>jwt.InvalidTokenError\<close> (bad signature, bad structure, ...), anything else.
\<close>

datatype jwt_exc = ExpiredSignatureError | InvalidTokenError | OtherException

type_synonym jwt_encoder = "payload \<Rightarrow> string \<Rightarrow> jwt_exc + string"
type_synonym jwt_decoder = "string \<Rightarrow> string \<Rightarrow> rat \<Rightarrow> jwt_exc + payload"

text \<open>
  PyJWT writes the registered date claims as JSON numbers: on encoding, a \<^verbatim>\<open>datetime\<close>
  under \<^verbatim>\<open>exp\<close>, \<^verbatim>\<open>iat\<close> or \<^verbatim>\<open>nbf\<close> becomes \<^verbatim>\<open>timegm(d.utctimetuple())\<close>, the whole
  seconds of the instant. A token carries JSON only, so that is what decoding returns.
\<close>

definition to_numeric_date :: "string \<times> claim \<Rightarrow> string \<times> claim" where
  "to_numeric_date kv =
     (case kv of
        (k, Datetime d) \<Rightarrow>
          if k = ''exp'' \<or> k = ''iat'' \<or> k = ''nbf'' then (k, Json (JInt \<lfloor>d\<rfloor>)) else kv
      | (k, Json j) \<Rightarrow> kv)"

fun is_json :: "string \<times> claim \<Rightarrow> bool" where
  "is_json (k, Json j) = True"
| "is_json (k, Datetime d) = False"

text \<open>
  The payload built by \<^verbatim>\<open>generate_verification_link\<close>. \<^verbatim>\<open>datetime.utcnow()\<close> is read
  twice there; both readings are the one instant \<open>utcnow\<close>.
\<close>

definition verification_payload :: "string \<Rightarrow> string \<Rightarrow> string \<Rightarrow> rat \<Rightarrow> payload" where
  "verification_payload phone_number access_token refresh_token utcnow =
     [(''phone_number'', Json (JString phone_number)),
      (''access_token'', Json (JString access_token)),
      (''refresh_token'', Json (JString refresh_token)),
      (''exp'', Datetime (utcnow + 24 * 3600)),
      (''iat'', Datetime utcnow),
      (''type'', Json (JString ''verification''))]"

record link =
  verification_link :: string
  link_jwt_token :: string
  link_phone_number :: string
  link_expires_at :: rat

datatype link_error = LINK_GENERATION_ERROR

definition generate_verification_link ::
  "jwt_encoder \<Rightarrow> string \<Rightarrow> string \<Rightarrow> string \<Rightarrow> string \<Rightarrow> string \<Rightarrow> rat \<Rightarrow> link_error + link"
where
  "generate_verification_link jwt_encode jwt_secret phone_number access_token refresh_token
     bot_username utcnow =
     (case jwt_encode (verification_payload phone_number access_token refresh_token utcnow)
             jwt_secret of
        Inl e \<Rightarrow> Inl LINK_GENERATION_ERROR
      | Inr jwt_token \<Rightarrow>
          Inr \<lparr>verification_link = ''https://t.me/'' @ bot_username @ ''?start='' @ jwt_token,
               link_jwt_token = jwt_token,
               link_phone_number = phone_number,
               link_expires_at = utcnow + 24 * 3600\<rparr>)"

text \<open>
  \<^verbatim>\<open>validate_verification_token\<close>. Its failures are the \<^verbatim>\<open>error\<close> tags of the returned
  dictionary. \<^verbatim>\<open>payload['exp'].isoformat()\<close> raises \<^verbatim>\<open>KeyError\<close> without the key and
  \<^verbatim>\<open>AttributeError\<close> on any value that is not a \<^verbatim>\<open>datetime\<close>; \<^verbatim>\<open>payload['phone_number']\<close>
  and the two token fields raise \<^verbatim>\<open>KeyError\<close> when missing. All of these reach the last
  \<^verbatim>\<open>except Exception\<close> clause. \<^verbatim>\<open>datetime.fromisoformat(d.isoformat())\<close> is \<open>d\<close>.
\<close>

datatype token_error = INVALID_TOKEN_TYPE | TOKEN_EXPIRED | INVALID_TOKEN | VALIDATION_ERROR

record validation =
  token_phone_number :: claim
  token_access_token :: claim
  token_refresh_token :: claim
  token_expires_at :: rat

definition validate_verification_token ::
  "jwt_decoder \<Rightarrow> string \<Rightarrow> string \<Rightarrow> rat \<Rightarrow> token_error + validation"
where
  "validate_verification_token jwt_decode jwt_secret jwt_token utcnow =
     (case jwt_decode jwt_token jwt_secret utcnow of
        Inl ExpiredSignatureError \<Rightarrow> Inl TOKEN_EXPIRED
      | Inl InvalidTokenError \<Rightarrow> Inl INVALID_TOKEN
      | Inl OtherException \<Rightarrow> Inl VALIDATION_ERROR
      | Inr payload \<Rightarrow>
          if map_of payload ''type'' \<noteq> Some (Json (JString ''verification''))
          then Inl INVALID_TOKEN_TYPE
          else (case map_of payload ''exp'' of
                  None \<Rightarrow> Inl VALIDATION_ERROR
                | Some (Json j) \<Rightarrow> Inl VALIDATION_ERROR
                | Some (Datetime expiry) \<Rightarrow>
                    if utcnow > expiry then Inl TOKEN_EXPIRED
                    else (case map_of payload ''phone_number'' of
                            None \<Rightarrow> Inl VALIDATION_ERROR
                          | Some phone_number \<Rightarrow>
                              (case map_of payload ''access_token'' of
                                 None \<Rightarrow> Inl VALIDATION_ERROR
                               | Some access_token \<Rightarrow>
                                   (case map_of payload ''refresh_token'' of
                                      None \<Rightarrow> Inl VALIDATION_ERROR
                                    | Some refresh_token \<Rightarrow>
                                        Inr \<lparr>token_phone_number = phone_number,
                                             token_access_token = access_token,
                                             token_refresh_token = refresh_token,
                                             token_expires_at = expiry\<rparr>)))))"

section \<open>Upstream calls and their outcomes\<close>

text \<open>
  The upstream API and the Telegram API are outside the program. A call made with
  \<^verbatim>\<open>requests\<close> either raises or returns a response; \<^verbatim>\<open>response.json()\<close> either raises or
  returns the parsed body. An exception is classified by the \<^verbatim>\<open>except\<close> clause that would
  catch it: \<^verbatim>\<open>requests.exceptions.RequestException\<close>, or anything else. The outcome of each
  call is an argument of the function that makes it, and the calls a function makes are
  returned as a list of events, in order. A code request is recorded with the phone number
  and the headers it sends.
\<close>

datatype http_exc = RequestException | OtherError

record response =
  status_code :: int
  body_text :: string
  body_json :: "http_exc + json"

type_synonym http_result = "http_exc + response"

text \<open>
  The \<^verbatim>\<open>error\<close> tags of the result dictionaries. The \<^verbatim>\<open>message\<close> texts are Russian
  sentences; \<open>detail\<close> names the sentence and carries what is interpolated into it.
\<close>

datatype error_kind =
    AUTH_ERROR | API_ERROR | CODE_NOT_FOUND | NETWORK_ERROR | UNKNOWN_ERROR
  | LOGIN_API_ERROR | INVALID_RESPONSE | TOKENS_NOT_FOUND

datatype detail =
    AuthDetail
  | ApiDetail int string
  | CodeNotFoundDetail
  | NetworkDetail
  | UnexpectedDetail
  | CodeReceivedDetail

text \<open>
  A text that comes from a chat, or that a caller hands over to be sent, is a Python
  \<^verbatim>\<open>str\<close> of any characters: the list of its Unicode code points, so that \<open>length\<close> is
  Python's \<^verbatim>\<open>len\<close>. \<open>codepoints\<close> gives the code points of an ASCII literal.
\<close>

type_synonym ustr = "nat list"

definition codepoints :: "string \<Rightarrow> ustr" where
  "codepoints s = map of_char s"

text \<open>
  The characters that \<^verbatim>\<open>str.strip()\<close> and \<^verbatim>\<open>str.lstrip()\<close> remove when called without an
  argument, the ones for which \<^verbatim>\<open>str.isspace()\<close> holds: U+0009 to U+000D, U+001C to U+001F,
  U+0020, U+0085, U+00A0, U+1680, U+2000 to U+200A, U+2028, U+2029, U+202F, U+205F, U+3000.
\<close>

definition is_space :: "nat \<Rightarrow> bool" where
  "is_space c =
     (c \<in> set [0x09, 0x0A, 0x0B, 0x0C, 0x0D, 0x1C, 0x1D, 0x1E, 0x1F, 0x20, 0x85, 0xA0, 0x1680,
                0x2000, 0x2001, 0x2002, 0x2003, 0x2004, 0x2005, 0x2006, 0x2007, 0x2008, 0x2009,
                0x200A, 0x2028, 0x2029, 0x202F, 0x205F, 0x3000])"

definition lstrip :: "ustr \<Rightarrow> ustr" where
  "lstrip s = dropWhile is_space s"

definition strip :: "ustr \<Rightarrow> ustr" where
  "strip s = rev (dropWhile is_space (rev (dropWhile is_space s)))"

text \<open>
  The texts the agent sends through Telegram, by template; \<open>PlainText\<close> is any other text.
  The replies of the bot, by template; the phone number in them is the stripped text of
  the chat message.
\<close>

datatype message =
    CodeMessage string string
  | AuthErrorMessage string
  | RequestErrorMessage string detail
  | PlainText ustr

datatype reply =
    BlockedReply int int
  | FormatErrorReply
  | ProcessingReply ustr nat
  | TokenErrorReply ustr nat error_kind
  | CodeReply json ustr nat
  | AuthErrorReply ustr nat
  | ApiErrorReply ustr nat error_kind

text \<open>
  \<open>CodeRequest\<close> is the agent's call of the code endpoint, \<open>BotCodeRequest\<close> the bot's; both
  carry the phone number and the headers sent.
\<close>

datatype event =
    LoginRequest
  | CodeRequest string "(string \<times> json) list"
  | BotCodeRequest ustr "(string \<times> json) list"
  | SendAnimation int
  | SendMessage int message
  | Reply reply
  | EditProcessing
  | DeleteProcessing

section \<open>The agent's code request and delivery (\<^verbatim>\<open>place_and_play_agent.py\<close>)\<close>

text \<open>
  The headers of the agent's code request: each token is added when it is given and not
  empty (\<^verbatim>\<open>if access_token:\<close>).
\<close>

definition agent_headers :: "string option \<Rightarrow> string option \<Rightarrow> (string \<times> json) list" where
  "agent_headers access_token refresh_token =
     [(''User-Agent'', JString ''PlaceAndPlay-TelegramBot/1.0''), (''language'', JString ''en'')]
     @ (case access_token of
          None \<Rightarrow> []
        | Some a \<Rightarrow> if a \<noteq> [] then [(''accessToken'', JString a)] else [])
     @ (case refresh_token of
          None \<Rightarrow> []
        | Some r \<Rightarrow> if r \<noteq> [] then [(''refreshToken'', JString r)] else [])"

text \<open>
  The result of \<^verbatim>\<open>PlaceAndPlayAgent.request_verification_code\<close>, given the outcome of its
  \<^verbatim>\<open>requests.get\<close>. With status 200 a body that does not parse is replaced by \<^verbatim>\<open>{}\<close>.
  \<^verbatim>\<open>if code:\<close> is false for \<^verbatim>\<open>None\<close> and for the empty string.
\<close>

definition agent_request_verification_code :: "http_result \<Rightarrow> (error_kind \<times> detail) + string" where
  "agent_request_verification_code outcome =
     (case outcome of
        Inl RequestException \<Rightarrow> Inl (NETWORK_ERROR, NetworkDetail)
      | Inl OtherError \<Rightarrow> Inl (UNKNOWN_ERROR, UnexpectedDetail)
      | Inr resp \<Rightarrow>
          if status_code resp = 200
          then (let result_json = (case body_json resp of Inl e \<Rightarrow> JObject [] | Inr j \<Rightarrow> j)
                in case find_code_in_payload result_json of
                     None \<Rightarrow> Inl (CODE_NOT_FOUND, CodeNotFoundDetail)
                   | Some code \<Rightarrow>
                       if code \<noteq> [] then Inr code else Inl (CODE_NOT_FOUND, CodeNotFoundDetail))
          else if status_code resp = 401 then Inl (AUTH_ERROR, AuthDetail)
          else Inl (API_ERROR, ApiDetail (status_code resp) (body_text resp)))"

text \<open>
  \<^verbatim>\<open>send_telegram_message\<close>: a text that starts with the marker \<^verbatim>\<open>__LOTTIE__\<close> is preceded by
  an animation and loses the marker and the white space after it. The templates start
  with an emoji, never with the marker. Every exception is caught; the result is whether
  the Telegram API answered 200.
\<close>

fun has_lottie_marker :: "message \<Rightarrow> bool" where
  "has_lottie_marker (PlainText s) = (take 10 s = codepoints ''__LOTTIE__'')"
| "has_lottie_marker m = False"

fun without_lottie_marker :: "message \<Rightarrow> message" where
  "without_lottie_marker (PlainText s) =
     (if take 10 s = codepoints ''__LOTTIE__'' then PlainText (lstrip (drop 10 s))
      else PlainText s)"
| "without_lottie_marker m = m"

definition send_telegram_message :: "int \<Rightarrow> message \<Rightarrow> http_result \<Rightarrow> bool \<times> event list" where
  "send_telegram_message chat_id msg delivery =
     ((case delivery of Inl e \<Rightarrow> False | Inr resp \<Rightarrow> status_code resp = 200),
      (if has_lottie_marker msg then [SendAnimation chat_id] else [])
      @ [SendMessage chat_id (without_lottie_marker msg)])"

text \<open>
  \<^verbatim>\<open>process_verification_request\<close>: the code request, then one Telegram message whose
  boolean result is dropped. The result is the returned dictionary: the code, or the
  \<^verbatim>\<open>error\<close> tag and \<^verbatim>\<open>message\<close>. (\<^verbatim>\<open>api_result.get("code")\<close> is tested again; a success
  without a code would fall to the error branch with the default tag.)
\<close>

definition process_verification_request ::
  "int \<Rightarrow> string \<Rightarrow> string option \<Rightarrow> string option \<Rightarrow> http_result \<Rightarrow> http_result
   \<Rightarrow> ((error_kind \<times> detail) + string) \<times> event list"
where
  "process_verification_request chat_id phone_number access_token refresh_token code_outcome
     delivery =
     (let api_result = agent_request_verification_code code_outcome;
          request = CodeRequest phone_number (agent_headers access_token refresh_token);
          failure = (\<lambda>error_type error_text.
             (Inl (error_type, error_text),
              request
              # snd (send_telegram_message chat_id
                     (if error_type = AUTH_ERROR then AuthErrorMessage phone_number
                      else RequestErrorMessage phone_number error_text) delivery)))
      in case api_result of
           Inr code \<Rightarrow>
             if code \<noteq> []
             then (Inr code,
                   request
                   # snd (send_telegram_message chat_id (CodeMessage phone_number code) delivery))
             else failure UNKNOWN_ERROR CodeReceivedDetail
         | Inl (error_type, error_text) \<Rightarrow> failure error_type error_text)"

section \<open>The bot's upstream calls and its phone-number handler (\<^verbatim>\<open>telegram_bot.py\<close>)\<close>

text \<open>
  Python operations on parsed JSON. \<^verbatim>\<open>x.get(k)\<close> exists on a \<^verbatim>\<open>dict\<close> only and gives
  \<^verbatim>\<open>None\<close> for a missing key; on any other value it raises \<^verbatim>\<open>AttributeError\<close> (here
  \<open>None\<close>). \<open>truthy\<close> is the truth value of \<^verbatim>\<open>if x:\<close>, \<open>eq_200\<close> is \<^verbatim>\<open>x == 200\<close>.
\<close>

fun py_get :: "json \<Rightarrow> string \<Rightarrow> json option" where
  "py_get (JObject items) k = Some (case map_of items k of None \<Rightarrow> JNull | Some v \<Rightarrow> v)"
| "py_get v k = None"

fun has_key :: "json \<Rightarrow> string \<Rightarrow> bool" where
  "has_key (JObject items) k = (map_of items k \<noteq> None)"
| "has_key v k = False"

fun truthy :: "json \<Rightarrow> bool" where
  "truthy JNull = False"
| "truthy (JBool b) = b"
| "truthy (JInt i) = (i \<noteq> 0)"
| "truthy (JFloat f) = (f \<noteq> 0)"
| "truthy (JString s) = (s \<noteq> [])"
| "truthy (JArray xs) = (xs \<noteq> [])"
| "truthy (JObject items) = (items \<noteq> [])"

fun eq_200 :: "json \<Rightarrow> bool" where
  "eq_200 (JInt i) = (i = 200)"
| "eq_200 (JFloat f) = (f = 200)"
| "eq_200 v = False"

text \<open>
  The result of \<^verbatim>\<open>PlaceAndPlayBot.get_auth_tokens\<close>, given the outcome of its
  \<^verbatim>\<open>requests.post\<close>.
\<close>

definition bot_get_auth_tokens :: "http_result \<Rightarrow> error_kind + json \<times> json" where
  "bot_get_auth_tokens outcome =
     (case outcome of
        Inl RequestException \<Rightarrow> Inl NETWORK_ERROR
      | Inl OtherError \<Rightarrow> Inl UNKNOWN_ERROR
      | Inr resp \<Rightarrow>
          if status_code resp = 200
          then (case body_json resp of
                  Inl RequestException \<Rightarrow> Inl NETWORK_ERROR
                | Inl OtherError \<Rightarrow> Inl UNKNOWN_ERROR
                | Inr response_data \<Rightarrow>
                    (case py_get response_data ''status'' of
                       None \<Rightarrow> Inl UNKNOWN_ERROR
                     | Some status \<Rightarrow>
                         if eq_200 status \<and> has_key response_data ''result''
                         then (case py_get response_data ''result'' of
                                 None \<Rightarrow> Inl UNKNOWN_ERROR
                               | Some tokens \<Rightarrow>
                                   (case (py_get tokens ''accessToken'',
                                          py_get tokens ''refreshToken'') of
                                      (Some access_token, Some refresh_token) \<Rightarrow>
                                        if truthy access_token \<and> truthy refresh_token
                                        then Inr (access_token, refresh_token)
                                        else Inl TOKENS_NOT_FOUND
                                    | _ \<Rightarrow> Inl UNKNOWN_ERROR))
                         else Inl INVALID_RESPONSE))
          else Inl LOGIN_API_ERROR)"

text \<open>
  The headers of the bot's code request; the tokens are the values found in the login
  answer.
\<close>

definition bot_headers :: "json \<Rightarrow> json \<Rightarrow> (string \<times> json) list" where
  "bot_headers access_token refresh_token =
     [(''accessToken'', access_token), (''refreshToken'', refresh_token),
      (''User-Agent'', JString ''PlaceAndPlay-TelegramBot/1.0''), (''isUser'', JString ''true''),
      (''language'', JString ''ru'')]"

text \<open>
  The result of \<^verbatim>\<open>PlaceAndPlayBot.request_verification_code\<close>, given the outcome of its \<^verbatim>\<open>requests.get\<close>.
  \<open>scan_items\<close> is the loop of its third response format; \<^verbatim>\<open>code\<close> starts as \<^verbatim>\<open>None\<close>.
\<close>

fun scan_items :: "(string \<times> json) list \<Rightarrow> json" where
  "scan_items [] = JNull"
| "scan_items ((key, value) # rest) =
     (if key = ''code'' \<and> truthy value then value
      else (case value of
              JObject sub \<Rightarrow> (case map_of sub ''code'' of None \<Rightarrow> scan_items rest | Some c \<Rightarrow> c)
            | _ \<Rightarrow> scan_items rest))"

fun items_of :: "json \<Rightarrow> (string \<times> json) list" where
  "items_of (JObject items) = items"
| "items_of v = []"

definition bot_request_verification_code :: "http_result \<Rightarrow> error_kind + json" where
  "bot_request_verification_code outcome =
     (case outcome of
        Inl RequestException \<Rightarrow> Inl NETWORK_ERROR
      | Inl OtherError \<Rightarrow> Inl UNKNOWN_ERROR
      | Inr resp \<Rightarrow>
          if status_code resp = 200
          then (case body_json resp of
                  Inl RequestException \<Rightarrow> Inl NETWORK_ERROR
                | Inl OtherError \<Rightarrow> Inl UNKNOWN_ERROR
                | Inr response_data \<Rightarrow>
                    (case py_get response_data ''status'' of
                       None \<Rightarrow> Inl UNKNOWN_ERROR
                     | Some status \<Rightarrow>
                         (let found =
                            (if eq_200 status \<and> has_key response_data ''result''
                             then (case py_get response_data ''result'' of
                                     None \<Rightarrow> None
                                   | Some result \<Rightarrow> py_get result ''code'')
                             else if has_key response_data ''code''
                             then py_get response_data ''code''
                             else Some (scan_items (items_of response_data)))
                          in case found of
                               None \<Rightarrow> Inl UNKNOWN_ERROR
                             | Some code \<Rightarrow> if truthy code then Inr code else Inl CODE_NOT_FOUND)))
          else Inl API_ERROR)"

text \<open>
  \<^verbatim>\<open>handle_phone_number\<close>. The clock is read once in \<^verbatim>\<open>check_ddos_protection\<close> and once in
  \<^verbatim>\<open>record_attempt\<close>. The handler returns nothing: its effects are the new attempts map
  and the events, the replies to the chat among them. The Telegram calls themselves
  (\<^verbatim>\<open>reply_text\<close>, \<^verbatim>\<open>edit_text\<close>, \<^verbatim>\<open>delete\<close>) are taken not to raise. \<open>0x2B\<close> is the
  plus sign and \<open>0x20\<close> the space.
\<close>

definition pretty_phone :: "ustr \<Rightarrow> ustr" where
  "pretty_phone phone_number =
     (if take 1 phone_number = [0x2B] \<and> length phone_number = 13
      then [0x2B] @ take 3 (drop 1 phone_number) @ [0x20] @ take 2 (drop 4 phone_number)
           @ [0x20] @ take 3 (drop 6 phone_number) @ [0x20] @ take 2 (drop 9 phone_number)
           @ [0x20] @ take 2 (drop 11 phone_number)
      else phone_number)"

definition handle_phone_number ::
  "attempts \<Rightarrow> ustr \<Rightarrow> int \<Rightarrow> rat \<Rightarrow> rat \<Rightarrow> http_result \<Rightarrow> http_result \<Rightarrow> attempts \<times> event list"
where
  "handle_phone_number att message_text chat_id t_check t_record login_outcome code_outcome =
     (let phone_number = strip message_text;
          (ddos_check, att1) = check_ddos_protection att chat_id t_check
      in case ddos_check of
           Blocked time_until_unblock minutes seconds \<Rightarrow>
             (att1, [Reply (BlockedReply minutes seconds)])
         | NotBlocked \<Rightarrow>
             if take 1 phone_number \<noteq> [0x2B] \<or> length phone_number < 10
             then (att1, [Reply FormatErrorReply])
             else (let att2 = record_attempt att1 chat_id t_record;
                       current_attempts = length (entry att2 chat_id)
                   in (att2,
                       Reply (ProcessingReply phone_number current_attempts) # LoginRequest
                       # (case bot_get_auth_tokens login_outcome of
                            Inl token_error \<Rightarrow>
                              [DeleteProcessing,
                               Reply (TokenErrorReply phone_number current_attempts token_error)]
                          | Inr (access_token, refresh_token) \<Rightarrow>
                              EditProcessing
                              # BotCodeRequest phone_number (bot_headers access_token refresh_token)
                              # (case bot_request_verification_code code_outcome of
                                   Inr code \<Rightarrow>
                                     [DeleteProcessing,
                                      Reply (CodeReply code (pretty_phone phone_number)
                                               current_attempts)]
                                 | Inl error_type \<Rightarrow>
                                     [DeleteProcessing,
                                      Reply (if error_type = AUTH_ERROR
                                             then AuthErrorReply phone_number current_attempts
                                             else ApiErrorReply phone_number current_attempts
                                                    error_type)])))))"

section \<open>Properties of the rate limiter\<close>

lemma recent_filter: "recent now ts = filter (\<lambda>a. now - a < 600) ts"
  by (simp add: recent_def block_duration_def)

lemma check_ddos_protection_result:
  "check_ddos_protection att chat_id now =
     (let kept = filter (\<lambda>a. now - a < 600) (case att chat_id of None \<Rightarrow> [] | Some ts \<Rightarrow> ts);
          wait = Min (set kept) + 600 - now
      in (if 5 \<le> length kept
          then Blocked wait \<lfloor>wait / 60\<rfloor> \<lfloor>wait - 60 * of_int \<lfloor>wait / 60\<rfloor>\<rfloor>
          else NotBlocked,
          att(chat_id \<mapsto> kept)))"
proof -
  let ?kept = "filter (\<lambda>a. now - a < 600) (case att chat_id of None \<Rightarrow> [] | Some ts \<Rightarrow> ts)"
  have kept: "recent now (entry att chat_id) = ?kept"
    by (simp add: recent_filter entry_def)
  show ?thesis
  proof (cases "5 \<le> length ?kept")
    case True
    then have "?kept \<noteq> []" by auto
    then have "min_list ?kept = Min (set ?kept)"
      by (rule min_list_Min)
    with True show ?thesis
      by (simp add: check_ddos_protection_def kept Let_def max_attempts_def block_duration_def
          algebra_simps)
  next
    case False
    then show ?thesis
      by (simp add: check_ddos_protection_def kept Let_def max_attempts_def)
  qed
qed

lemma snd_check_ddos_protection:
  "snd (check_ddos_protection att chat_id now)
   = att(chat_id \<mapsto> filter (\<lambda>a. now - a < 600) (case att chat_id of None \<Rightarrow> [] | Some ts \<Rightarrow> ts))"
  by (simp add: check_ddos_protection_result Let_def)

lemma record_attempt_result:
  "record_attempt att chat_id now
   = att(chat_id \<mapsto> (case att chat_id of None \<Rightarrow> [] | Some ts \<Rightarrow> ts) @ [now])"
  by (simp add: record_attempt_def entry_def)

lemma filter_window_twice:
  "c \<le> now \<Longrightarrow>
   filter (\<lambda>a. c - a < 600 \<and> now - a < 600) ts = filter (\<lambda>a. now - a < (600::rat)) ts"
  by (induction ts) auto

text \<open>
  One accepted attempt (the block check at \<open>c\<close>, the record at \<open>r\<close>) adds one timestamp to
  those that a later check at \<open>now\<close> keeps.
\<close>

lemma kept_after_round:
  assumes "c \<le> now" and "now - r < 600"
  shows "length (filter (\<lambda>a. now - a < 600)
           (entry (record_attempt (snd (check_ddos_protection att chat_id c)) chat_id r) chat_id))
         = Suc (length (filter (\<lambda>a. now - a < 600) (entry att chat_id)))"
proof -
  have "entry (record_attempt (snd (check_ddos_protection att chat_id c)) chat_id r) chat_id
        = filter (\<lambda>a. c - a < 600) (entry att chat_id) @ [r]"
    by (simp add: record_attempt_result snd_check_ddos_protection entry_def)
  then show ?thesis
    using assms by (simp add: filter_window_twice)
qed

lemma kept_after_rounds:
  "list_all (\<lambda>(c, r). c \<le> now \<and> now - r < 600) rounds \<Longrightarrow>
   length (filter (\<lambda>a. now - a < 600)
     (entry (foldl (\<lambda>s (c, r). record_attempt (snd (check_ddos_protection s chat_id c)) chat_id r)
               att rounds) chat_id))
   = length (filter (\<lambda>a. now - a < 600) (entry att chat_id)) + length rounds"
proof (induction rounds arbitrary: att)
  case Nil
  then show ?case by simp
next
  case (Cons p rounds)
  obtain c r where p: "p = (c, r)" by (cases p)
  from Cons.prems p have c: "c \<le> now" and r: "now - r < 600"
    and rest: "list_all (\<lambda>(c, r). c \<le> now \<and> now - r < 600) rounds"
    by simp_all
  show ?case
    using Cons.IH [OF rest, of "record_attempt (snd (check_ddos_protection att chat_id c)) chat_id r"]
    by (simp add: p kept_after_round [OF c r])
qed

text \<open>
  Claim C3 as stated fails at the edge of the window: the code keeps a timestamp only
  while its age is below 600 seconds. Five attempts at 0, 1, 2, 3, 4, none of them older
  than 600 seconds at the instant 600, do not block a check at that instant: the attempt
  at 0 is dropped and four are written back.
\<close>

theorem check_ddos_protection_window_edge:
  "list_all (\<lambda>a. \<not> 600 < 600 - a) [0, 1, 2, 3, 4 :: rat]
   \<and> check_ddos_protection [42 \<mapsto> [0, 1, 2, 3, 4]] 42 600 = (NotBlocked, [42 \<mapsto> [1, 2, 3, 4]])"
  by (simp add: check_ddos_protection_result)

text \<open>
  Claim C3, amended. For every attempts map, identity and instant,
  \<^verbatim>\<open>check_ddos_protection\<close> keeps exactly the identity's timestamps whose age is below 600
  seconds (one that is exactly 600 seconds old is dropped), writes that list back as the
  identity's entry, and answers blocked exactly when at least 5 are kept, the wait being
  the oldest kept timestamp plus 600 minus now, with its whole minutes and seconds;
  \<^verbatim>\<open>record_attempt\<close> appends the instant to the identity's entry. After five or more accepted
  attempts (check, then record), each checked no later than \<open>now\<close> and recorded less than
  600 seconds before \<open>now\<close>, the check at \<open>now\<close> is blocked. With attempts at
  \<open>t, t + 1, ..., t + 4\<close>, the check at \<open>t + 600.5\<close> is not blocked and leaves the last four.
\<close>

theorem check_ddos_protection_sliding_window:
  "check_ddos_protection att chat_id now =
     (let kept = filter (\<lambda>a. now - a < 600) (case att chat_id of None \<Rightarrow> [] | Some ts \<Rightarrow> ts);
          wait = Min (set kept) + 600 - now
      in (if 5 \<le> length kept
          then Blocked wait \<lfloor>wait / 60\<rfloor> \<lfloor>wait - 60 * of_int \<lfloor>wait / 60\<rfloor>\<rfloor>
          else NotBlocked,
          att(chat_id \<mapsto> kept)))
   \<and> record_attempt att chat_id now
       = att(chat_id \<mapsto> (case att chat_id of None \<Rightarrow> [] | Some ts \<Rightarrow> ts) @ [now])
   \<and> (list_all (\<lambda>(t_check, t_record). t_check \<le> now \<and> now - t_record < 600) rounds
        \<and> 5 \<le> length rounds \<longrightarrow>
        fst (check_ddos_protection
               (foldl (\<lambda>s (t_check, t_record).
                         record_attempt (snd (check_ddos_protection s chat_id t_check)) chat_id
                           t_record)
                  att rounds)
               chat_id now) \<noteq> NotBlocked)
   \<and> check_ddos_protection (att(chat_id \<mapsto> [t, t + 1, t + 2, t + 3, t + 4])) chat_id
         (t + 600 + 1 / 2)
       = (NotBlocked, att(chat_id \<mapsto> [t + 1, t + 2, t + 3, t + 4]))"
proof (intro conjI impI)
  show "check_ddos_protection att chat_id now =
     (let kept = filter (\<lambda>a. now - a < 600) (case att chat_id of None \<Rightarrow> [] | Some ts \<Rightarrow> ts);
          wait = Min (set kept) + 600 - now
      in (if 5 \<le> length kept
          then Blocked wait \<lfloor>wait / 60\<rfloor> \<lfloor>wait - 60 * of_int \<lfloor>wait / 60\<rfloor>\<rfloor>
          else NotBlocked,
          att(chat_id \<mapsto> kept)))"
    by (rule check_ddos_protection_result)
next
  show "record_attempt att chat_id now
       = att(chat_id \<mapsto> (case att chat_id of None \<Rightarrow> [] | Some ts \<Rightarrow> ts) @ [now])"
    by (rule record_attempt_result)
next
  let ?after = "foldl (\<lambda>s (t_check, t_record).
                         record_attempt (snd (check_ddos_protection s chat_id t_check)) chat_id
                           t_record)
                  att rounds"
  assume h: "list_all (\<lambda>(t_check, t_record). t_check \<le> now \<and> now - t_record < 600) rounds
             \<and> 5 \<le> length rounds"
  then have "5 \<le> length (filter (\<lambda>a. now - a < 600) (entry ?after chat_id))"
    by (simp add: kept_after_rounds)
  then show "fst (check_ddos_protection ?after chat_id now) \<noteq> NotBlocked"
    by (simp add: check_ddos_protection_result entry_def Let_def)
next
  show "check_ddos_protection (att(chat_id \<mapsto> [t, t + 1, t + 2, t + 3, t + 4])) chat_id
         (t + 600 + 1 / 2)
       = (NotBlocked, att(chat_id \<mapsto> [t + 1, t + 2, t + 3, t + 4]))"
    by (simp add: check_ddos_protection_result)
qed

theorem check_ddos_protection_sliding_window_witness:
  "list_all (\<lambda>(t_check, t_record). t_check \<le> 300 \<and> 300 - t_record < 600)
     ([(0, 1), (10, 11), (20, 21), (30, 31), (40, 41)] :: (rat \<times> rat) list)
   \<and> 5 \<le> length ([(0, 1), (10, 11), (20, 21), (30, 31), (40, 41)] :: (rat \<times> rat) list)
   \<and> foldl (\<lambda>s (t_check, t_record).
               record_attempt (snd (check_ddos_protection s 7 t_check)) 7 t_record)
        [7 \<mapsto> [-900]] [(0, 1), (10, 11), (20, 21), (30, 31), (40, 41)]
      = [7 \<mapsto> [1, 11, 21, 31, 41]]
   \<and> check_ddos_protection [7 \<mapsto> [1, 11, 21, 31, 41]] 7 300
      = (Blocked 301 5 1, [7 \<mapsto> [1, 11, 21, 31, 41]])
   \<and> fst (check_ddos_protection [7 \<mapsto> [1, 11, 21, 31, 41]] 7 300) \<noteq> NotBlocked"
proof -
  let ?rounds = "[(0, 1), (10, 11), (20, 21), (30, 31), (40, 41)] :: (rat \<times> rat) list"
  have h: "list_all (\<lambda>(t_check, t_record). t_check \<le> 300 \<and> 300 - t_record < 600) ?rounds
           \<and> 5 \<le> length ?rounds"
    by simp
  have run: "foldl (\<lambda>s (t_check, t_record).
               record_attempt (snd (check_ddos_protection s 7 t_check)) 7 t_record)
        [7 \<mapsto> [-900]] ?rounds
      = [7 \<mapsto> [1, 11, 21, 31, 41]]"
    by (simp add: record_attempt_result snd_check_ddos_protection)
  have "\<lfloor>(301::rat) / 60\<rfloor> = 5"
    by (rule floor_unique) simp_all
  then have res: "check_ddos_protection [7 \<mapsto> [1, 11, 21, 31, 41]] 7 300
      = (Blocked 301 5 1, [7 \<mapsto> [1, 11, 21, 31, 41]])"
    using check_ddos_protection_sliding_window [of "[7 \<mapsto> [1, 11, 21, 31, 41]]" 7 300 "[]" 0]
    by (simp add: Let_def)
  have "fst (check_ddos_protection [7 \<mapsto> [1, 11, 21, 31, 41]] 7 300) \<noteq> NotBlocked"
    using check_ddos_protection_sliding_window [of "[7 \<mapsto> [-900]]" 7 300 ?rounds 0] h run
    by simp
  with h run res show ?thesis by simp
qed

text \<open>
  Claim C9. The block check is a write. Whatever the attempts map held, the checked
  identity's entry becomes the list of its timestamps whose age is below 600 seconds, in
  their order: a known identity keeps its key and loses the timestamps that have aged
  out, an identity never seen before gets a new key with the empty list, so that the map
  has one key more, and the entry of every other identity stays as it was.
\<close>

theorem check_ddos_protection_writes_entry:
  "snd (check_ddos_protection att chat_id now)
   = att(chat_id \<mapsto> filter (\<lambda>a. now - a < 600) (case att chat_id of None \<Rightarrow> [] | Some ts \<Rightarrow> ts))
   \<and> (att chat_id = Some ts \<longrightarrow>
        snd (check_ddos_protection att chat_id now) chat_id = Some (filter (\<lambda>a. now - a < 600) ts)
        \<and> dom (snd (check_ddos_protection att chat_id now)) = dom att)
   \<and> (att chat_id = None \<longrightarrow>
        snd (check_ddos_protection att chat_id now) chat_id = Some []
        \<and> dom (snd (check_ddos_protection att chat_id now)) = insert chat_id (dom att)
        \<and> chat_id \<notin> dom att
        \<and> (finite (dom att) \<longrightarrow>
             card (dom (snd (check_ddos_protection att chat_id now))) = Suc (card (dom att))))
   \<and> (other \<noteq> chat_id \<longrightarrow> snd (check_ddos_protection att chat_id now) other = att other)"
  by (auto simp: snd_check_ddos_protection domIff)

theorem check_ddos_protection_writes_entry_witness:
  "[1 \<mapsto> [0, 650, 100, 699 :: rat]] (1::int) = Some [0, 650, 100, 699]
   \<and> snd (check_ddos_protection [1 \<mapsto> [0, 650, 100, 699]] 1 700) = [1 \<mapsto> [650, 699]]
   \<and> snd (check_ddos_protection [1 \<mapsto> [0, 650, 100, 699]] 1 700) 1 = Some [650, 699]
   \<and> dom (snd (check_ddos_protection [1 \<mapsto> [0, 650, 100, 699]] 1 700)) = {1}
   \<and> [1 \<mapsto> [0, 650 :: rat]] (2::int) = None
   \<and> finite (dom [(1::int) \<mapsto> [0, 650 :: rat]])
   \<and> (1::int) \<noteq> 2
   \<and> snd (check_ddos_protection [1 \<mapsto> [0, 650]] 2 700) = [1 \<mapsto> [0, 650], 2 \<mapsto> []]
   \<and> snd (check_ddos_protection [1 \<mapsto> [0, 650]] 2 700) 2 = Some []
   \<and> dom (snd (check_ddos_protection [1 \<mapsto> [0, 650]] 2 700)) = {2, 1}
   \<and> card (dom (snd (check_ddos_protection [1 \<mapsto> [0, 650]] 2 700))) = 2
   \<and> snd (check_ddos_protection [1 \<mapsto> [0, 650]] 2 700) 1 = Some [0, 650]"
proof -
  have seen: "snd (check_ddos_protection [1 \<mapsto> [0, 650, 100, 699]] 1 700) = [1 \<mapsto> [650, 699]]
      \<and> snd (check_ddos_protection [1 \<mapsto> [0, 650, 100, 699]] 1 700) 1 = Some [650, 699]
      \<and> dom (snd (check_ddos_protection [1 \<mapsto> [0, 650, 100, 699]] 1 700)) = {1}"
    using check_ddos_protection_writes_entry
            [of "[1 \<mapsto> [0, 650, 100, 699]]" 1 700 "[0, 650, 100, 699]" 2]
    by simp
  have unseen: "snd (check_ddos_protection [1 \<mapsto> [0, 650]] 2 700) = [1 \<mapsto> [0, 650], 2 \<mapsto> []]
      \<and> snd (check_ddos_protection [1 \<mapsto> [0, 650]] 2 700) 2 = Some []
      \<and> dom (snd (check_ddos_protection [1 \<mapsto> [0, 650]] 2 700)) = {2, 1}
      \<and> card (dom (snd (check_ddos_protection [1 \<mapsto> [0, 650]] 2 700))) = 2
      \<and> snd (check_ddos_protection [1 \<mapsto> [0, 650]] 2 700) 1 = Some [0, 650]"
    using check_ddos_protection_writes_entry [of "[1 \<mapsto> [0, 650]]" 2 700 "[]" 1]
    by auto
  from seen unseen show ?thesis by simp
qed

section \<open>Properties of the code extractor\<close>

lemma lower_idem: "lower (lower s) = lower s"
proof -
  have "lower_char (lower_char c) = lower_char c" for c
    by (auto simp: lower_char_def split: if_splits)
  then show ?thesis
    by (simp add: lower_def)
qed

lemma target_key_matches:
  "lower key \<in> set TARGET_KEYS \<longleftrightarrow> lower key = ''code'' \<or> lower key = ''otp''"
proof -
  have "lower key \<noteq> ''verificationCode''" and "lower key \<noteq> ''otpCode''"
    using lower_idem [of key] by (auto simp: lower_def lower_char_def)
  then show ?thesis
    by (auto simp: TARGET_KEYS_def)
qed

lemma find_in_items_match:
  "lower key = ''code'' \<or> lower key = ''otp'' \<Longrightarrow> is_str_or_int v \<Longrightarrow>
   find_in_items ((key, v) # rest) = Some (py_str v)"
  by (simp add: target_key_matches)

lemma find_code_in_payload_camel_case_key:
  "lower key = ''verificationcode'' \<or> lower key = ''otpcode'' \<Longrightarrow>
   find_code_in_payload (JObject [(key, JString s)]) = None"
  by (auto simp: target_key_matches)

text \<open>
  Claim C2, at the inputs where the code departs from it. The key is lowered before it is
  looked up in \<^verbatim>\<open>TARGET_KEYS\<close>, which holds \<^verbatim>\<open>verificationCode\<close> and \<^verbatim>\<open>otpCode\<close> in mixed
  case: an object whose only key is \<^verbatim>\<open>verificationCode\<close> or \<^verbatim>\<open>otpCode\<close> with a string
  value yields nothing, while \<^verbatim>\<open>{"Code": 1234}\<close> yields \<^verbatim>\<open>"1234"\<close>.
\<close>

theorem find_code_in_payload_verificationCode:
  "find_code_in_payload (JObject [(''verificationCode'', JString ''1234'')]) = None
   \<and> find_code_in_payload (JObject [(''otpCode'', JString ''1234'')]) = None
   \<and> find_code_in_payload (JObject [(''Code'', JInt 1234)]) = Some ''1234''"
  by (simp add: lower_def lower_char_def TARGET_KEYS_def str_int_def digit_char_def)

section \<open>Properties of the session codec\<close>

lemma map_of_numeric_dates_exp:
  "map_of (map to_numeric_date (verification_payload phone access refresh issued)) ''exp''
   = Some (Json (JInt \<lfloor>issued + 24 * 3600\<rfloor>))"
  by (simp add: verification_payload_def to_numeric_date_def)

lemma map_of_numeric_dates_type:
  "map_of (map to_numeric_date (verification_payload phone access refresh issued)) ''type''
   = Some (Json (JString ''verification''))"
  by (simp add: verification_payload_def to_numeric_date_def)

lemma validate_verification_token_json_exp:
  assumes "jwt_decode token secret now = Inr payload"
      and "map_of payload ''exp'' = Some (Json j)"
  shows "validate_verification_token jwt_decode secret token now = Inl INVALID_TOKEN_TYPE
         \<or> validate_verification_token jwt_decode secret token now = Inl VALIDATION_ERROR"
  using assms by (simp add: validate_verification_token_def)

lemma validate_verification_token_signature_failure:
  "jwt_decode token secret now = Inl InvalidTokenError \<Longrightarrow>
   validate_verification_token jwt_decode secret token now = Inl INVALID_TOKEN"
  by (simp add: validate_verification_token_def)

text \<open>
  Claim C1, where the code departs from it. Take any encoder that returns a token for the
  payload of \<^verbatim>\<open>generate_verification_link\<close>, and any decoder that accepts that token and
  returns its claims as PyJWT does, the dates as numbers. The link is generated, and
  validating its token does not return the session: \<^verbatim>\<open>payload['exp']\<close> is an integer,
  \<^verbatim>\<open>.isoformat()\<close> raises, and the result is the failure \<^verbatim>\<open>VALIDATION_ERROR\<close>.
\<close>

theorem session_roundtrip_validation_error:
  assumes "jwt_encode (verification_payload phone access refresh issued) secret = Inr token"
      and "jwt_decode token secret now
           = Inr (map to_numeric_date (verification_payload phone access refresh issued))"
  shows "generate_verification_link jwt_encode secret phone access refresh bot_username issued
         = Inr \<lparr>verification_link = ''https://t.me/'' @ bot_username @ ''?start='' @ token,
                link_jwt_token = token,
                link_phone_number = phone,
                link_expires_at = issued + 24 * 3600\<rparr>
         \<and> validate_verification_token jwt_decode secret token now = Inl VALIDATION_ERROR"
proof
  show "generate_verification_link jwt_encode secret phone access refresh bot_username issued
         = Inr \<lparr>verification_link = ''https://t.me/'' @ bot_username @ ''?start='' @ token,
                link_jwt_token = token,
                link_phone_number = phone,
                link_expires_at = issued + 24 * 3600\<rparr>"
    using assms(1) by (simp add: generate_verification_link_def)
next
  show "validate_verification_token jwt_decode secret token now = Inl VALIDATION_ERROR"
    using assms(2)
    by (simp add: validate_verification_token_def map_of_numeric_dates_exp
        map_of_numeric_dates_type)
qed

theorem session_roundtrip_validation_error_witness:
  "validate_verification_token
     (\<lambda>token secret now.
        Inr (map to_numeric_date (verification_payload ''+998998888931'' ''acc'' ''ref'' 1000)))
     ''secret'' ''token'' 1060
   = Inl VALIDATION_ERROR
   \<and> generate_verification_link (\<lambda>payload secret. Inr ''token'') ''secret''
       ''+998998888931'' ''acc'' ''ref'' ''bot'' 1000
     = Inr \<lparr>verification_link = ''https://t.me/bot?start=token'',
            link_jwt_token = ''token'',
            link_phone_number = ''+998998888931'',
            link_expires_at = 87400\<rparr>"
  using session_roundtrip_validation_error
          [of "\<lambda>payload secret. Inr ''token''" "''+998998888931''" "''acc''" "''ref''" 1000
              "''secret''" "''token''"
              "\<lambda>token secret now.
                 Inr (map to_numeric_date
                        (verification_payload ''+998998888931'' ''acc'' ''ref'' 1000))"
              1060 "''bot''"]
  by simp

text \<open>
  Claim C7. For every decoder, token and instant: a validation that succeeds has decoded
  a payload whose \<^verbatim>\<open>type\<close> is \<^verbatim>\<open>verification\<close> and whose expiry is not before the instant
  of validation; a decoder that reports expiry, a payload of another type, and a payload
  whose expiry has passed each give a failure.
\<close>

theorem validate_verification_token_invariant:
  "(validate_verification_token jwt_decode secret token now = Inr v \<longrightarrow>
      (\<exists>payload. jwt_decode token secret now = Inr payload
         \<and> map_of payload ''type'' = Some (Json (JString ''verification''))
         \<and> map_of payload ''exp'' = Some (Datetime (token_expires_at v))
         \<and> now \<le> token_expires_at v))
   \<and> (jwt_decode token secret now = Inl ExpiredSignatureError \<longrightarrow>
        validate_verification_token jwt_decode secret token now = Inl TOKEN_EXPIRED)
   \<and> (jwt_decode token secret now = Inr p
        \<and> map_of p ''type'' \<noteq> Some (Json (JString ''verification'')) \<longrightarrow>
        validate_verification_token jwt_decode secret token now = Inl INVALID_TOKEN_TYPE)
   \<and> (jwt_decode token secret now = Inr p
        \<and> map_of p ''type'' = Some (Json (JString ''verification''))
        \<and> map_of p ''exp'' = Some (Datetime e) \<and> e < now \<longrightarrow>
        validate_verification_token jwt_decode secret token now = Inl TOKEN_EXPIRED)"
proof (intro conjI impI)
  assume ok: "validate_verification_token jwt_decode secret token now = Inr v"
  then obtain payload where d: "jwt_decode token secret now = Inr payload"
    by (cases "jwt_decode token secret now")
       (auto simp: validate_verification_token_def split: jwt_exc.splits)
  from ok d have t: "map_of payload ''type'' = Some (Json (JString ''verification''))"
    by (auto simp: validate_verification_token_def split: if_splits)
  from ok d t obtain expiry where e: "map_of payload ''exp'' = Some (Datetime expiry)"
    by (auto simp: validate_verification_token_def split: option.splits claim.splits)
  from ok d t e have "now \<le> expiry" and "token_expires_at v = expiry"
    by (auto simp: validate_verification_token_def split: option.splits if_splits)
  with d t e
  show "\<exists>payload. jwt_decode token secret now = Inr payload
         \<and> map_of payload ''type'' = Some (Json (JString ''verification''))
         \<and> map_of payload ''exp'' = Some (Datetime (token_expires_at v))
         \<and> now \<le> token_expires_at v"
    by auto
qed (auto simp: validate_verification_token_def)

theorem validate_verification_token_invariant_witness:
  "validate_verification_token
     (\<lambda>token secret now. Inr (verification_payload ''+998998888931'' ''acc'' ''ref'' 1000))
     ''secret'' ''token'' 1060
   = Inr \<lparr>token_phone_number = Json (JString ''+998998888931''),
          token_access_token = Json (JString ''acc''),
          token_refresh_token = Json (JString ''ref''),
          token_expires_at = 87400\<rparr>
   \<and> (1060::rat) \<le> 87400
   \<and> validate_verification_token (\<lambda>token secret now. Inl ExpiredSignatureError)
        ''secret'' ''token'' 1060 = Inl TOKEN_EXPIRED
   \<and> validate_verification_token
        (\<lambda>token secret now. Inr [(''type'', Json (JString ''login'')), (''exp'', Datetime 87400)])
        ''secret'' ''token'' 1060 = Inl INVALID_TOKEN_TYPE
   \<and> validate_verification_token
        (\<lambda>token secret now. Inr (verification_payload ''+998998888931'' ''acc'' ''ref'' 1000))
        ''secret'' ''token'' 90000 = Inl TOKEN_EXPIRED"
proof -
  let ?fresh = "\<lambda>(token::string) (secret::string) (now::rat).
      Inr (verification_payload ''+998998888931'' ''acc'' ''ref'' 1000) :: jwt_exc + payload"
  let ?v = "\<lparr>token_phone_number = Json (JString ''+998998888931''),
             token_access_token = Json (JString ''acc''),
             token_refresh_token = Json (JString ''ref''),
             token_expires_at = 87400\<rparr>"
  have ok: "validate_verification_token ?fresh ''secret'' ''token'' 1060 = Inr ?v"
    by (simp add: validate_verification_token_def verification_payload_def)
  have a: "(1060::rat) \<le> 87400"
    using validate_verification_token_invariant
            [of ?fresh "''secret''" "''token''" 1060 ?v] ok
    by auto
  have b: "validate_verification_token (\<lambda>token secret now. Inl ExpiredSignatureError)
             ''secret'' ''token'' 1060 = Inl TOKEN_EXPIRED"
    using validate_verification_token_invariant
            [of "\<lambda>token secret now. Inl ExpiredSignatureError" "''secret''" "''token''" 1060]
    by simp
  have c: "validate_verification_token
             (\<lambda>token secret now.
                Inr [(''type'', Json (JString ''login'')), (''exp'', Datetime 87400)])
             ''secret'' ''token'' 1060 = Inl INVALID_TOKEN_TYPE"
    using validate_verification_token_invariant
            [of "\<lambda>token secret now.
                   Inr [(''type'', Json (JString ''login'')), (''exp'', Datetime 87400)]"
                "''secret''" "''token''" 1060 _
                "[(''type'', Json (JString ''login'')), (''exp'', Datetime 87400)]"]
    by simp
  have d: "validate_verification_token ?fresh ''secret'' ''token'' 90000 = Inl TOKEN_EXPIRED"
    using validate_verification_token_invariant
            [of ?fresh "''secret''" "''token''" 90000 _
                "verification_payload ''+998998888931'' ''acc'' ''ref'' 1000" 87400]
    by (simp add: verification_payload_def)
  from ok a b c d show ?thesis by simp
qed

section \<open>Properties of the code request and of delivery\<close>

lemma agent_request_verification_code_status:
  "status_code resp \<noteq> 200 \<Longrightarrow>
   agent_request_verification_code (Inr resp)
   = (if status_code resp = 401 then Inl (AUTH_ERROR, AuthDetail)
      else Inl (API_ERROR, ApiDetail (status_code resp) (body_text resp)))"
  by (simp add: agent_request_verification_code_def)

lemma bot_request_verification_code_status:
  "status_code resp \<noteq> 200 \<Longrightarrow> bot_request_verification_code (Inr resp) = Inl API_ERROR"
  by (simp add: bot_request_verification_code_def)

lemma bot_request_verification_code_never_auth_error:
  "bot_request_verification_code outcome \<noteq> Inl AUTH_ERROR"
  by (auto simp: bot_request_verification_code_def Let_def
      split: sum.splits http_exc.splits option.splits if_splits)

text \<open>
  Claim C5, where the code departs from it. The agent maps a 401 answer to
  \<^verbatim>\<open>AUTH_ERROR\<close> and, for instance, a 500 answer to \<^verbatim>\<open>API_ERROR\<close>. The bot's own
  \<^verbatim>\<open>request_verification_code\<close> has no 401 branch: the same 401 answer gives \<^verbatim>\<open>API_ERROR\<close>
  there, and the phone-number handler then sends the general error reply, not the
  authentication one.
\<close>

theorem bot_request_verification_code_401:
  "bot_request_verification_code
     (Inr \<lparr>status_code = 401, body_text = ''Unauthorized'', body_json = Inl RequestException\<rparr>)
   = Inl API_ERROR
   \<and> agent_request_verification_code
       (Inr \<lparr>status_code = 401, body_text = ''Unauthorized'', body_json = Inl RequestException\<rparr>)
     = Inl (AUTH_ERROR, AuthDetail)
   \<and> agent_request_verification_code
       (Inr \<lparr>status_code = 500, body_text = ''Oops'', body_json = Inl RequestException\<rparr>)
     = Inl (API_ERROR, ApiDetail 500 ''Oops'')"
  by (simp add: bot_request_verification_code_def agent_request_verification_code_def)

lemma handle_phone_number_401_reply:
  "snd (handle_phone_number Map.empty (codepoints ''+998998888931'') 42 10 10
        (Inr \<lparr>status_code = 200, body_text = [],
              body_json = Inr (JObject [(''status'', JInt 200),
                (''result'', JObject [(''accessToken'', JString ''acc''),
                                      (''refreshToken'', JString ''ref'')])])\<rparr>)
        (Inr \<lparr>status_code = 401, body_text = ''Unauthorized'',
              body_json = Inl RequestException\<rparr>))
   = [Reply (ProcessingReply (codepoints ''+998998888931'') 1), LoginRequest, EditProcessing,
      BotCodeRequest (codepoints ''+998998888931'')
        (bot_headers (JString ''acc'') (JString ''ref'')),
      DeleteProcessing, Reply (ApiErrorReply (codepoints ''+998998888931'') 1 API_ERROR)]"
  by (simp add: bot_request_verification_code_def codepoints_def
      handle_phone_number_def check_ddos_protection_def record_attempt_def entry_def recent_def
      max_attempts_def strip_def is_space_def bot_get_auth_tokens_def Let_def)

text \<open>
  Claim C8. When the code request yields a code, \<^verbatim>\<open>process_verification_request\<close> returns
  that code whatever the Telegram call does (an exception, any status): one code request
  and one message are issued, and the boolean of \<^verbatim>\<open>send_telegram_message\<close> is not looked at.
\<close>

theorem process_verification_request_delivery_failure:
  "agent_request_verification_code code_outcome = Inr code \<Longrightarrow>
   process_verification_request chat_id phone_number access_token refresh_token code_outcome
     delivery
   = (Inr code,
      [CodeRequest phone_number (agent_headers access_token refresh_token),
       SendMessage chat_id (CodeMessage phone_number code)])"
proof -
  assume ok: "agent_request_verification_code code_outcome = Inr code"
  then have "code \<noteq> []"
    by (auto simp: agent_request_verification_code_def Let_def
        split: sum.splits http_exc.splits option.splits if_splits)
  with ok show ?thesis
    by (simp add: process_verification_request_def send_telegram_message_def)
qed

theorem process_verification_request_delivery_failure_witness:
  "agent_request_verification_code
     (Inr \<lparr>status_code = 200, body_text = [],
           body_json = Inr (JObject [(''result'', JObject [(''code'', JString ''7788'')])])\<rparr>)
   = Inr ''7788''
   \<and> fst (send_telegram_message 42 (CodeMessage ''+998998888931'' ''7788'')
            (Inl RequestException)) = False
   \<and> process_verification_request 42 ''+998998888931'' (Some ''acc'') (Some ''ref'')
       (Inr \<lparr>status_code = 200, body_text = [],
             body_json = Inr (JObject [(''result'', JObject [(''code'', JString ''7788'')])])\<rparr>)
       (Inl RequestException)
     = (Inr ''7788'',
        [CodeRequest ''+998998888931'' (agent_headers (Some ''acc'') (Some ''ref'')),
         SendMessage 42 (CodeMessage ''+998998888931'' ''7788'')])"
proof -
  have ok: "agent_request_verification_code
     (Inr \<lparr>status_code = 200, body_text = [],
           body_json = Inr (JObject [(''result'', JObject [(''code'', JString ''7788'')])])\<rparr>)
    = Inr ''7788''"
    by (simp add: agent_request_verification_code_def lower_def lower_char_def TARGET_KEYS_def)
  have failed: "fst (send_telegram_message 42 (CodeMessage ''+998998888931'' ''7788'')
                  (Inl RequestException)) = False"
    by (simp add: send_telegram_message_def)
  from process_verification_request_delivery_failure
         [OF ok, of 42 "''+998998888931''" "Some ''acc''" "Some ''ref''" "Inl RequestException"]
       ok failed
  show ?thesis by simp
qed

section \<open>Properties of the phone-number handler\<close>

lemma blocked_handler_run:
  assumes "5 \<le> length (recent t_check (entry att chat_id))"
  shows "\<exists>minutes seconds.
           handle_phone_number att message_text chat_id t_check t_record login_outcome
             code_outcome
           = (att(chat_id \<mapsto> recent t_check (entry att chat_id)),
              [Reply (BlockedReply minutes seconds)])"
  using assms
  by (simp add: handle_phone_number_def check_ddos_protection_def max_attempts_def Let_def)

lemma accepted_handler_run_state:
  assumes "\<not> is_blocked (fst (check_ddos_protection att chat_id t_check))"
      and "take 1 (strip message_text) = [0x2B]" and "10 \<le> length (strip message_text)"
  shows "fst (handle_phone_number att message_text chat_id t_check t_record login_outcome
                code_outcome)
         = record_attempt (snd (check_ddos_protection att chat_id t_check)) chat_id t_record"
  using assms
  by (cases "fst (check_ddos_protection att chat_id t_check)")
     (auto simp: handle_phone_number_def Let_def split: prod.splits)

lemma direct_path_first_event:
  "hd (snd (process_verification_request chat_id phone_number access_token refresh_token
              code_outcome delivery))
   = CodeRequest phone_number (agent_headers access_token refresh_token)"
  by (simp add: process_verification_request_def Let_def split: sum.splits prod.splits)

text \<open>
  Claim C4 as stated fails on the agent: \<^verbatim>\<open>process_verification_request\<close> consults no
  rate limiter. With five attempts recorded for chat 42 inside the window, so that the
  bot's check reports blocked, the agent's direct path for chat 42 still issues the code
  request and returns the code.
\<close>

theorem process_verification_request_not_rate_limited:
  "is_blocked (fst (check_ddos_protection [42 \<mapsto> [0, 1, 2, 3, 4]] 42 60))
   \<and> process_verification_request 42 ''+998998888931'' (Some ''acc'') (Some ''ref'')
       (Inr \<lparr>status_code = 200, body_text = [],
             body_json = Inr (JObject [(''result'', JObject [(''code'', JString ''7788'')])])\<rparr>)
       (Inr \<lparr>status_code = 200, body_text = [], body_json = Inl RequestException\<rparr>)
     = (Inr ''7788'',
        [CodeRequest ''+998998888931''
           [(''User-Agent'', JString ''PlaceAndPlay-TelegramBot/1.0''),
            (''language'', JString ''en''), (''accessToken'', JString ''acc''),
            (''refreshToken'', JString ''ref'')],
         SendMessage 42 (CodeMessage ''+998998888931'' ''7788'')])"
  by (simp add: check_ddos_protection_def entry_def recent_def block_duration_def
      max_attempts_def Let_def process_verification_request_def
      agent_request_verification_code_def send_telegram_message_def agent_headers_def
      lower_def lower_char_def TARGET_KEYS_def)

text \<open>
  Claim C4, amended. In the bot's \<^verbatim>\<open>handle_phone_number\<close>, an identity with at least five
  attempts inside the window at the check gets the blocked reply and nothing else: no
  login call, no code request, no attempt recorded. The agent's
  \<^verbatim>\<open>process_verification_request\<close> has no block check and always starts with the code
  request.
\<close>

theorem handle_phone_number_blocked:
  "5 \<le> length (recent t_check (entry att chat_id)) \<Longrightarrow>
   (\<exists>minutes seconds.
      handle_phone_number att message_text chat_id t_check t_record login_outcome code_outcome
      = (att(chat_id \<mapsto> recent t_check (entry att chat_id)),
         [Reply (BlockedReply minutes seconds)]))
   \<and> hd (snd (process_verification_request chat_id phone_number access_token refresh_token
                  code_outcome delivery))
       = CodeRequest phone_number (agent_headers access_token refresh_token)"
  by (simp add: blocked_handler_run direct_path_first_event)

theorem handle_phone_number_blocked_witness:
  "5 \<le> length (recent 60 (entry [42 \<mapsto> [0, 1, 2, 3, 4]] 42))
   \<and> handle_phone_number [42 \<mapsto> [0, 1, 2, 3, 4]] (codepoints ''+998998888931'') 42 60 61
        (Inl RequestException) (Inl RequestException)
      = ([42 \<mapsto> [0, 1, 2, 3, 4]], [Reply (BlockedReply 9 0)])"
proof -
  have h: "5 \<le> length (recent 60 (entry [42 \<mapsto> [0, 1, 2, 3, 4]] 42))"
    by (simp add: recent_def entry_def block_duration_def)
  have e: "handle_phone_number [42 \<mapsto> [0, 1, 2, 3, 4]] (codepoints ''+998998888931'') 42 60 61
        (Inl RequestException) (Inl RequestException)
      = ([42 \<mapsto> [0, 1, 2, 3, 4]], [Reply (BlockedReply 9 0)])"
    using handle_phone_number_blocked
            [OF h, of "codepoints ''+998998888931''" 61 "Inl RequestException"
               "Inl RequestException"]
    by (simp add: handle_phone_number_def check_ddos_protection_def entry_def recent_def
        block_duration_def max_attempts_def Let_def)
  from h e show ?thesis by simp
qed

lemma strip_padded:
  assumes "list_all is_space before" and "list_all is_space after"
      and "\<not> is_space first" and "\<not> is_space final"
  shows "strip (before @ first # middle @ final # after) = first # middle @ [final]"
proof -
  have l: "dropWhile is_space (before @ first # middle @ final # after)
           = first # middle @ final # after"
    using assms(1,3) by (simp add: dropWhile_append3 list_all_iff)
  have "dropWhile is_space (rev after @ final # rev middle @ [first]) = final # rev middle @ [first]"
    using assms(2,4) by (simp add: dropWhile_append3 list_all_iff)
  then show ?thesis
    by (simp add: strip_def l)
qed

text \<open>
  A text with a no-break space before a well-formed number is accepted, as by Python's
  \<^verbatim>\<open>strip()\<close>: the attempt is recorded and the login call is made.
\<close>

lemma handle_phone_number_no_break_space:
  "handle_phone_number Map.empty (0xA0 # codepoints ''+998998888931'') 42 10 11
     (Inl RequestException) (Inl RequestException)
   = ([42 \<mapsto> [11]],
      [Reply (ProcessingReply (codepoints ''+998998888931'') 1), LoginRequest, DeleteProcessing,
       Reply (TokenErrorReply (codepoints ''+998998888931'') 1 NETWORK_ERROR)])"
  by (simp add: handle_phone_number_def check_ddos_protection_def record_attempt_def entry_def
      recent_def max_attempts_def strip_def is_space_def bot_get_auth_tokens_def codepoints_def
      Let_def)

text \<open>
  Claim C10 as stated fails: the block check comes before the format check and writes
  the compacted window. A blocked identity that sends a number too short to pass the
  format check gets the blocked reply, not the format error; and the same text from an
  identity whose only attempt has aged out of the window empties that identity's entry.
\<close>

theorem handle_phone_number_malformed_text:
  "length (strip (codepoints ''+12345'')) < 10
   \<and> handle_phone_number [42 \<mapsto> [0, 1, 2, 3, 4]] (codepoints ''+12345'') 42 60 61
        (Inl RequestException) (Inl RequestException)
      = ([42 \<mapsto> [0, 1, 2, 3, 4]], [Reply (BlockedReply 9 0)])
   \<and> handle_phone_number [42 \<mapsto> [0]] (codepoints ''+12345'') 42 700 701
        (Inl RequestException) (Inl RequestException)
      = ([42 \<mapsto> []], [Reply FormatErrorReply])"
  by (simp add: handle_phone_number_def check_ddos_protection_def entry_def recent_def
      block_duration_def max_attempts_def Let_def strip_def is_space_def codepoints_def)

text \<open>
  Claim C10, amended. For every text that, once stripped of the white space Python's
  \<^verbatim>\<open>strip()\<close> removes, does not start with \<^verbatim>\<open>+\<close> or has fewer than 10 characters, the
  handler makes no upstream call and records no attempt. Its only event is one reply: the
  format error when fewer than 5 of the identity's timestamps are inside the window, the
  blocked message with the remaining minutes and seconds otherwise. Its only write is
  the one of the block check: the identity's entry becomes the list of its timestamps
  whose age is below 600 seconds, and no timestamp is added.
\<close>

theorem handle_phone_number_format_rejection:
  "take 1 (strip message_text) \<noteq> [0x2B] \<or> length (strip message_text) < 10 \<Longrightarrow>
   handle_phone_number att message_text chat_id t_check t_record login_outcome code_outcome
   = (let kept = filter (\<lambda>a. t_check - a < 600)
                   (case att chat_id of None \<Rightarrow> [] | Some ts \<Rightarrow> ts);
          wait = Min (set kept) + 600 - t_check
      in (att(chat_id \<mapsto> kept),
          [Reply (if 5 \<le> length kept
                  then BlockedReply \<lfloor>wait / 60\<rfloor> \<lfloor>wait - 60 * of_int \<lfloor>wait / 60\<rfloor>\<rfloor>
                  else FormatErrorReply)]))"
  by (auto simp: handle_phone_number_def check_ddos_protection_result Let_def)

theorem handle_phone_number_format_rejection_witness:
  "strip (0xA0 # codepoints ''+99899888'' @ [0xA0]) = codepoints ''+99899888''
   \<and> length (strip (0xA0 # codepoints ''+99899888'' @ [0xA0])) < 10
   \<and> handle_phone_number [42 \<mapsto> [0, 650]] (0xA0 # codepoints ''+99899888'' @ [0xA0]) 42 700 701
        (Inl RequestException) (Inl RequestException)
      = ([42 \<mapsto> [650]], [Reply FormatErrorReply])
   \<and> take 1 (strip (codepoints ''998998888931'')) \<noteq> [0x2B]
   \<and> handle_phone_number [42 \<mapsto> [0, 1, 2, 3, 4]] (codepoints ''998998888931'') 42 60 61
        (Inl RequestException) (Inl RequestException)
      = ([42 \<mapsto> [0, 1, 2, 3, 4]], [Reply (BlockedReply 9 0)])"
proof -
  let ?short = "0xA0 # codepoints ''+99899888'' @ [0xA0]"
  have s: "strip ?short = codepoints ''+99899888''"
    by (simp add: strip_def is_space_def codepoints_def)
  then have l: "length (strip ?short) < 10"
    by (simp add: codepoints_def)
  then have h1: "take 1 (strip ?short) \<noteq> [0x2B] \<or> length (strip ?short) < 10"
    by simp
  have e1: "handle_phone_number [42 \<mapsto> [0, 650]] ?short 42 700 701
        (Inl RequestException) (Inl RequestException)
      = ([42 \<mapsto> [650]], [Reply FormatErrorReply])"
    using handle_phone_number_format_rejection
            [OF h1, of "[42 \<mapsto> [0, 650]]" 42 700 701 "Inl RequestException"
               "Inl RequestException"]
    by (simp add: Let_def)
  have n: "take 1 (strip (codepoints ''998998888931'')) \<noteq> [0x2B]"
    by (simp add: strip_def is_space_def codepoints_def)
  then have h2: "take 1 (strip (codepoints ''998998888931'')) \<noteq> [0x2B]
                 \<or> length (strip (codepoints ''998998888931'')) < 10"
    by simp
  have e2: "handle_phone_number [42 \<mapsto> [0, 1, 2, 3, 4]] (codepoints ''998998888931'') 42 60 61
        (Inl RequestException) (Inl RequestException)
      = ([42 \<mapsto> [0, 1, 2, 3, 4]], [Reply (BlockedReply 9 0)])"
    using handle_phone_number_format_rejection
            [OF h2, of "[42 \<mapsto> [0, 1, 2, 3, 4]]" 42 60 61 "Inl RequestException"
               "Inl RequestException"]
    by (simp add: Let_def)
  from s l e1 n e2 show ?thesis by simp
qed

end
